theory Spec2Isabelle
  imports Complex_Main "HOL-Library.Log_Nat"
begin

section \<open>Data model (src/App.tsx, lines 12-33)\<close>

text \<open>
  The interface \<open>Prediction\<close>. The type parameter \<open>'n\<close> stands for the JavaScript
  \<open>number\<close> type of the field \<open>probability\<close>.
\<close>

record 'n Prediction =
  class_id :: string
  class_name :: string
  probability :: 'n

datatype exn = NetworkError | SyntaxError | TypeError | InvariantViolation

text \<open>
  The TypeScript annotations are erased at run time, so the value read from
  \<open>data.predictions\<close>, which \<open>setPredictions\<close> stores, is whatever \<open>JSON.parse\<close>
  made of the body's property: \<open>undefined\<close> when the body has no such property,
  \<open>null\<close>, a number, a boolean, a string, an object, or an array of any elements.

  The code observes such a value through \<open>.map\<close>, through \<open>.length > 0\<close> and, for
  each element \<open>pred\<close> of an array, through \<open>pred.class_name\<close> and
  \<open>pred.probability\<close>. The model keeps what these observations depend on.
  \<^item> An element is \<open>null\<close>, where reading a property throws, or any other value, given
    by the values of its two properties (a JSON array has no \<open>undefined\<close> element).
  \<^item> A property value is of the declared type (a string for the name, a number for the
    probability) or anything else, \<open>undefined\<close> included. What the language makes of a
    value of another type belongs to the language and is given with the value: the text
    that the template literal yields for the name, the text \<open>(x * 100).toFixed(2)\<close> for
    the probability, and for the name as a text child of the render the text React shows,
    or \<open>None\<close> when React refuses the child (an object).
  \<^item> A value that is neither \<open>undefined\<close>, \<open>null\<close> nor an array has no callable
    \<open>map\<close>; of such a value only the truth of \<open>.length > 0\<close> matters: false for a
    number, a boolean and the empty string, true for any other string, and for an object
    whatever the comparison of its property \<open>length\<close> gives.
\<close>

datatype js_name = NameString string | NameOther string "string option"

datatype 'n js_probability = ProbabilityNumber 'n | ProbabilityOther string

datatype 'n js_element = NullElement | Element js_name "'n js_probability"

datatype 'n js_predictions = Undefined | Null | NonArray bool | Array "'n js_element list"

text \<open>An element of the shape that the interface \<open>Prediction\<close> declares.\<close>

definition shaped :: "'n Prediction \<Rightarrow> 'n js_element" where
  "shaped p = Element (NameString (class_name p)) (ProbabilityNumber (probability p))"

text \<open>The four \<open>useState\<close> cells of the component \<open>App\<close> (lines 27-33).\<close>

record 'n session_state =
  imageUri :: "string option"
  predictions :: "'n js_predictions"
  isLoading :: bool
  serverIP :: string

definition initial_state :: "'n session_state" where
  "initial_state =
     \<lparr>imageUri = None, predictions = Array [], isLoading = False,
      serverIP = ''54.164.207.27''\<rparr>"

section \<open>Effects\<close>

text \<open>The object appended to the form data (lines 58-62) and the call of \<open>fetch\<close> (65-71).\<close>

record file_part =
  part_uri :: string
  part_type :: string
  part_name :: string

record request =
  req_url :: string
  req_method :: string
  req_body :: "(string \<times> file_part) list"
  req_headers :: "(string \<times> string) list"

text \<open>The options of \<open>Speech.speak\<close> (lines 43-45); \<open>rate\<close> is the literal 1.2.\<close>

record speech_options =
  language :: string
  pitch :: rat
  rate :: rat

definition speak_options :: speech_options where
  "speak_options = \<lparr>language = ''es'', pitch = 1, rate = 12 / 10\<rparr>"

text \<open>
  A handler is modelled by the list of effects it performs, in order: the calls of the
  state setters, and the calls into the environment (permission request, camera, network,
  speech, console, alert).
\<close>

datatype 'n event =
    RequestCameraPermissions
  | LaunchCamera
  | SetImageUri string
  | SetIsLoading bool
  | Fetch request
  | ResponseJson
  | SetPredictions "'n js_predictions"
  | Speak string speech_options
  | ConsoleError string
  | Alert string

text \<open>The state setters are the only effects that change the session state.\<close>

fun apply_event :: "'n event \<Rightarrow> 'n session_state \<Rightarrow> 'n session_state" where
  "apply_event (SetImageUri u) s = s\<lparr>imageUri := Some u\<rparr>"
| "apply_event (SetIsLoading b) s = s\<lparr>isLoading := b\<rparr>"
| "apply_event (SetPredictions p) s = s\<lparr>predictions := p\<rparr>"
| "apply_event _ s = s"

definition run_events :: "'n event list \<Rightarrow> 'n session_state \<Rightarrow> 'n session_state" where
  "run_events evs s = fold apply_event evs s"

section \<open>The environment of one capture\<close>

text \<open>
  What each awaited call yields. \<open>fetch\<close> either rejects or resolves with a response,
  whatever its status code; \<open>response.json()\<close> either rejects or resolves with the parsed
  body. Of a parsed body only two things matter to the code: whether it is \<open>null\<close>
  (reading a property of \<open>null\<close> throws), and otherwise the value of its property
  \<open>predictions\<close> (\<open>Undefined\<close> when it has none, as for a number, a string or an
  object without it). Every awaited call is taken to settle.
\<close>

datatype permission_status = Granted | Denied | Undetermined

datatype camera_result = Canceled | Captured string

datatype 'n json_body = NullBody | NonNullBody "'n js_predictions"

datatype 'n json_outcome = JsonRejected | JsonResolved "'n json_body"

record 'n response =
  status :: nat
  json_result :: "'n json_outcome"

datatype 'n fetch_outcome = FetchRejected | FetchResolved "'n response"

record 'n environment =
  permission :: permission_status
  camera :: camera_result
  fetch_result :: "'n fetch_outcome"
  speak_throws :: bool

section \<open>speakPredictions (lines 36-50)\<close>

text \<open>
  \<open>Array.prototype.join\<close>: the loop over the indices \<open>k\<close>, which appends the separator
  before every element but the first.
\<close>

fun join_loop :: "string \<Rightarrow> nat \<Rightarrow> string \<Rightarrow> string list \<Rightarrow> string" where
  "join_loop sep k R [] = R"
| "join_loop sep k R (x # xs) =
     join_loop sep (Suc k) ((if 0 < k then R @ sep else R) @ x) xs"

definition join :: "string list \<Rightarrow> string \<Rightarrow> string" where
  "join xs sep = join_loop sep 0 [] xs"

text \<open>
  The parameter \<open>percent\<close> stands for the JavaScript expression
  \<open>(x * 100).toFixed(2)\<close> on numbers, which belongs to the language and not to the
  repository.
\<close>

fun template :: "js_name \<Rightarrow> string" where
  "template (NameString name) = name"
| "template (NameOther text shown) = text"

fun percent_text :: "('n \<Rightarrow> string) \<Rightarrow> 'n js_probability \<Rightarrow> string" where
  "percent_text percent (ProbabilityNumber x) = percent x"
| "percent_text percent (ProbabilityOther text) = text"

text \<open>
  The arrow function of lines 37-39. It reads \<open>pred.class_name\<close> first, which throws
  when \<open>pred\<close> is \<open>null\<close>.
\<close>

fun callback :: "('n \<Rightarrow> string) \<Rightarrow> 'n js_element \<Rightarrow> exn + string" where
  "callback percent NullElement = Inl TypeError"
| "callback percent (Element name prob) =
     Inr (template name @ '' con '' @ percent_text percent prob @ ''% de probabilidad'')"

text \<open>
  \<open>Array.prototype.map\<close> with a function that may throw: the first exception ends the
  loop.
\<close>

fun array_map :: "('a \<Rightarrow> exn + 'b) \<Rightarrow> 'a list \<Rightarrow> exn + 'b list" where
  "array_map f [] = Inr []"
| "array_map f (x # xs) =
     (case f x of
        Inl e \<Rightarrow> Inl e
      | Inr y \<Rightarrow> (case array_map f xs of Inl e \<Rightarrow> Inl e | Inr ys \<Rightarrow> Inr (y # ys)))"

text \<open>
  Lines 37-39, which stand before the \<open>try\<close> of line 41: calling \<open>.map\<close> on a value
  that is not an array throws, and so does the callback on a \<open>null\<close> element.
\<close>

definition textToSpeak :: "('n \<Rightarrow> string) \<Rightarrow> 'n js_predictions \<Rightarrow> exn + string" where
  "textToSpeak percent preds =
     (case preds of
        Array xs \<Rightarrow>
          (case array_map (callback percent) xs of
             Inl e \<Rightarrow> Inl e
           | Inr pieces \<Rightarrow> Inr (join pieces ''. ''))
      | Undefined \<Rightarrow> Inl TypeError
      | Null \<Rightarrow> Inl TypeError
      | NonArray positive \<Rightarrow> Inl TypeError)"

text \<open>
  An exception of lines 37-39 leaves the function; a failure of \<open>Speech.speak\<close> is
  caught and logged (lines 41-49).
\<close>

definition speakPredictions ::
  "('n \<Rightarrow> string) \<Rightarrow> bool \<Rightarrow> 'n js_predictions \<Rightarrow> 'n event list \<times> exn option" where
  "speakPredictions percent throws preds =
     (case textToSpeak percent preds of
        Inl e \<Rightarrow> ([], Some e)
      | Inr text \<Rightarrow>
          (Speak text speak_options #
             (if throws then [ConsoleError ''Error al reproducir audio:''] else []),
           None))"

section \<open>sendImageToServer (lines 53-83)\<close>

definition build_request :: "string \<Rightarrow> string \<Rightarrow> request" where
  "build_request ip u =
     \<lparr>req_url = ''http://'' @ ip @ '':8720/predict/'',
      req_method = ''POST'',
      req_body = [(''file'', \<lparr>part_uri = u, part_type = ''image/jpeg'',
                              part_name = ''photo.jpg''\<rparr>)],
      req_headers = [(''Content-Type'', ''multipart/form-data'')]\<rparr>"

text \<open>The body of the \<open>try\<close>: its effects, and the exception that leaves it, if any.\<close>

definition try_block ::
  "('n \<Rightarrow> string) \<Rightarrow> string \<Rightarrow> string \<Rightarrow> 'n environment \<Rightarrow> 'n event list \<times> exn option" where
  "try_block percent ip u env =
     (let started = [SetIsLoading True, Fetch (build_request ip u)] in
      case fetch_result env of
        FetchRejected \<Rightarrow> (started, Some NetworkError)
      | FetchResolved resp \<Rightarrow>
          (case json_result resp of
             JsonRejected \<Rightarrow> (started @ [ResponseJson], Some SyntaxError)
           | JsonResolved data \<Rightarrow>
               (case data of
                  NullBody \<Rightarrow> (started @ [ResponseJson], Some TypeError)
                | NonNullBody p \<Rightarrow>
                    (let (evs, exn) = speakPredictions percent (speak_throws env) p in
                     (started @ [ResponseJson, SetPredictions p] @ evs, exn)))))"

text \<open>
  The closure reads \<open>serverIP\<close> from the state of the render that created it, here the
  state \<open>s\<close> in which the handler was started.
\<close>

definition sendImageToServer ::
  "('n \<Rightarrow> string) \<Rightarrow> 'n session_state \<Rightarrow> string \<Rightarrow> 'n environment \<Rightarrow> 'n event list" where
  "sendImageToServer percent s u env =
     (let (evs, exn) = try_block percent (serverIP s) u env in
      evs @
      (case exn of
         None \<Rightarrow> []
       | Some e \<Rightarrow> [ConsoleError ''Error al enviar la imagen:'',
                    Alert ''Error al procesar la imagen'']) @
      [SetIsLoading False])"

section \<open>takePhoto (lines 86-106)\<close>

text \<open>
  The permission request yields a status and the camera yields either a cancellation or
  the URI of the first asset; a rejection of one of these two calls is not modelled.
\<close>

text \<open>The message of line 90; its accented letter is the code point 0xE1.\<close>

definition permission_message :: string where
  "permission_message = ''Se requieren permisos para usar la c'' @ [CHR 0xE1] @ ''mara.''"

definition takePhoto ::
  "('n \<Rightarrow> string) \<Rightarrow> 'n session_state \<Rightarrow> 'n environment \<Rightarrow> 'n event list" where
  "takePhoto percent s env =
     RequestCameraPermissions #
     (if permission env \<noteq> Granted then [Alert permission_message]
      else LaunchCamera #
        (case camera env of
           Canceled \<Rightarrow> []
         | Captured u \<Rightarrow> SetImageUri u # sendImageToServer percent s u env))"

section \<open>The component's render (lines 109-167)\<close>

record prediction_item =
  item_key :: nat
  predictionName :: string
  predictionProb :: string

datatype results_view = LoadingContainer | PredictionsCard "prediction_item list" | NoResults

record view =
  title :: string
  ipInput :: string
  imageCard :: "string option"
  results :: results_view

text \<open>
  Lines 150-161, for one element: creating the item reads \<open>prediction.class_name\<close>
  and \<open>prediction.probability\<close>, which throws for a \<open>null\<close> element; showing it makes
  React render the name as a text child.
\<close>

fun created :: "('n \<Rightarrow> string) \<Rightarrow> nat \<times> 'n js_element \<Rightarrow> exn + nat \<times> js_name \<times> string" where
  "created percent (index, NullElement) = Inl TypeError"
| "created percent (index, Element name prob) =
     Inr (index, name, percent_text percent prob @ ''%'')"

fun child :: "js_name \<Rightarrow> string option" where
  "child (NameString name) = Some name"
| "child (NameOther text shown) = shown"

fun committed :: "nat \<times> js_name \<times> string \<Rightarrow> exn + prediction_item" where
  "committed (index, name, prob) =
     (case child name of
        None \<Rightarrow> Inl InvariantViolation
      | Some text \<Rightarrow> Inr \<lparr>item_key = index, predictionName = text, predictionProb = prob\<rparr>)"

definition predictionItems :: "('n \<Rightarrow> string) \<Rightarrow> 'n js_element list \<Rightarrow> exn + prediction_item list" where
  "predictionItems percent xs =
     (case array_map (created percent) (enumerate 0 xs) of
        Inl e \<Rightarrow> Inl e
      | Inr items \<Rightarrow> array_map committed items)"

text \<open>
  \<open>imageUri && ...\<close> shows the image for a non-empty string only. Reading \<open>.length\<close>
  of \<open>undefined\<close> or \<open>null\<close> throws; where \<open>.length > 0\<close> holds, \<open>.map\<close> is called,
  which throws on a value that is not an array. When the render throws, nothing is shown.
\<close>

definition render :: "('n \<Rightarrow> string) \<Rightarrow> 'n session_state \<Rightarrow> exn + view" where
  "render percent s =
     (let shown = (\<lambda>r. \<lparr>title = ''Analizar imagen'', ipInput = serverIP s,
                          imageCard = (case imageUri s of
                                         None \<Rightarrow> None
                                       | Some u \<Rightarrow> if u = [] then None else Some u),
                          results = r\<rparr>) in
      if isLoading s then Inr (shown LoadingContainer)
      else
        (case predictions s of
           Array xs \<Rightarrow>
             (if 0 < length xs
              then (case predictionItems percent xs of
                      Inl e \<Rightarrow> Inl e
                    | Inr items \<Rightarrow> Inr (shown (PredictionsCard items)))
              else Inr (shown NoResults))
         | Undefined \<Rightarrow> Inl TypeError
         | Null \<Rightarrow> Inl TypeError
         | NonArray positive \<Rightarrow> if positive then Inl TypeError else Inr (shown NoResults)))"

section \<open>Observations on a list of effects\<close>

fun fetches :: "'n event list \<Rightarrow> request list" where
  "fetches [] = []"
| "fetches (Fetch r # es) = r # fetches es"
| "fetches (_ # es) = fetches es"

fun alerts :: "'n event list \<Rightarrow> string list" where
  "alerts [] = []"
| "alerts (Alert m # es) = m # alerts es"
| "alerts (_ # es) = alerts es"

fun utterances :: "'n event list \<Rightarrow> (string \<times> speech_options) list" where
  "utterances [] = []"
| "utterances (Speak t opts # es) = (t, opts) # utterances es"
| "utterances (_ # es) = utterances es"

fun stores :: "'n event list \<Rightarrow> 'n js_predictions list" where
  "stores [] = []"
| "stores (SetPredictions p # es) = p # stores es"
| "stores (_ # es) = stores es"

text \<open>Each effect with the state right after it.\<close>

fun snapshots :: "'n event list \<Rightarrow> 'n session_state \<Rightarrow> ('n event \<times> 'n session_state) list" where
  "snapshots [] s = []"
| "snapshots (e # es) s = (e, apply_event e s) # snapshots es (apply_event e s)"

text \<open>
  The calls whose result the handler awaits: after each of them the handler is suspended
  and the state can be observed. The request is under way while \<open>fetch\<close> or the reading
  of the response body is awaited.
\<close>

fun awaited :: "'n event \<Rightarrow> bool" where
  "awaited RequestCameraPermissions = True"
| "awaited LaunchCamera = True"
| "awaited (Fetch r) = True"
| "awaited ResponseJson = True"
| "awaited (Speak t opts) = True"
| "awaited _ = False"

fun request_in_flight :: "'n event \<Rightarrow> bool" where
  "request_in_flight (Fetch r) = True"
| "request_in_flight ResponseJson = True"
| "request_in_flight _ = False"

fun speech_step :: "'n event \<Rightarrow> bool" where
  "speech_step (Speak t opts) = True"
| "speech_step _ = False"

text \<open>The \<open>ok\<close> of a response: a status from 200 to 299. The code never reads it.\<close>

definition response_ok :: "'n response \<Rightarrow> bool" where
  "response_ok resp = (200 \<le> status resp \<and> status resp < 300)"

section \<open>The announced sentence, as the specification words it\<close>

text \<open>
  For each prediction the piece "class_name con P% de probabilidad", the pieces in list
  order with ". " between two neighbours.
\<close>

definition piece :: "('n \<Rightarrow> string) \<Rightarrow> 'n Prediction \<Rightarrow> string" where
  "piece percent p = class_name p @ '' con '' @ percent (probability p) @ ''% de probabilidad''"

fun sentence :: "('n \<Rightarrow> string) \<Rightarrow> 'n Prediction list \<Rightarrow> string" where
  "sentence percent [] = []"
| "sentence percent [p] = piece percent p"
| "sentence percent (p # q # ps) = piece percent p @ ''. '' @ sentence percent (q # ps)"

section \<open>Numbers: a binary64 reading of \<open>(x * 100).toFixed(2)\<close>\<close>

text \<open>
  A finite double is given by its exact value, a rational. \<open>binary64\<close> rounds a rational
  to the nearest double, ties to the even significand (53 bits, least exponent -1074);
  \<open>toFixed2\<close> follows \<open>Number.prototype.toFixed\<close> with two fraction digits: the integer
  nearest to a hundred times the magnitude, the larger one on a tie, printed with a point
  before its last two digits. Both are meant for finite values whose magnitude stays below
  10^21, where \<open>toFixed\<close> prints digits and no exponent; the examples below lie there.
\<close>

definition pow2 :: "int \<Rightarrow> rat" where
  "pow2 e = (if 0 \<le> e then 2 ^ nat e else 1 / 2 ^ nat (- e))"

definition ilog2 :: "rat \<Rightarrow> int" where
  "ilog2 q =
     (let d = bitlen (fst (quotient_of q)) - bitlen (snd (quotient_of q))
      in if pow2 d \<le> q then d else d - 1)"

definition round_half_even :: "rat \<Rightarrow> int" where
  "round_half_even q =
     (let f = \<lfloor>q\<rfloor>; r = q - of_int f
      in if r < 1 / 2 then f else if 1 / 2 < r then f + 1 else if even f then f else f + 1)"

definition binary64 :: "rat \<Rightarrow> rat" where
  "binary64 q =
     (if q = 0 then 0
      else (let e = max (ilog2 \<bar>q\<bar> - 52) (- 1074)
            in sgn q * of_int (round_half_even (\<bar>q\<bar> / pow2 e)) * pow2 e))"

function decimal :: "int \<Rightarrow> string" where
  "decimal n =
     (if n < 10 then [''0123456789'' ! nat n]
      else decimal (n div 10) @ [''0123456789'' ! nat (n mod 10)])"
  by pat_completeness auto
termination
  by (relation "measure nat") auto

definition toFixed2 :: "rat \<Rightarrow> string" where
  "toFixed2 x =
     (let n = \<lfloor>\<bar>x\<bar> * 100 + 1 / 2\<rfloor>;
          m = decimal n;
          m' = (if length m \<le> 2 then replicate (3 - length m) (CHR ''0'') @ m else m)
      in (if x < 0 then ''-'' else []) @
         take (length m' - 2) m' @ ''.'' @ drop (length m' - 2) m')"

definition js_percent :: "rat \<Rightarrow> string" where
  "js_percent x = toFixed2 (binary64 (x * 100))"

section \<open>Example inputs\<close>

text \<open>
  The end-to-end example: server address 192.168.1.5, one prediction with class name
  "gato" and the probability that the JSON literal 0.9321 denotes.
\<close>

definition gato :: "rat Prediction" where
  "gato = \<lparr>class_id = ''1'', class_name = ''gato'', probability = binary64 (9321 / 10000)\<rparr>"

definition perro :: "rat Prediction" where
  "perro = \<lparr>class_id = ''2'', class_name = ''perro'', probability = binary64 (5 / 100)\<rparr>"

definition loro :: "rat Prediction" where
  "loro = \<lparr>class_id = ''3'', class_name = ''loro'', probability = binary64 (145 / 1000)\<rparr>"

definition fresh_state :: "rat session_state" where
  "fresh_state = initial_state\<lparr>serverIP := ''192.168.1.5''\<rparr>"

definition shown_state :: "rat session_state" where
  "shown_state =
     fresh_state\<lparr>imageUri := Some ''file:///old.jpg'', predictions := Array [shaped perro]\<rparr>"

definition listed_state :: "rat session_state" where
  "listed_state = fresh_state\<lparr>predictions := Array [shaped gato, shaped perro]\<rparr>"

definition photo :: string where
  "photo = ''file:///photo.jpg''"

definition capture :: "rat fetch_outcome \<Rightarrow> rat environment" where
  "capture outcome =
     \<lparr>permission = Granted, camera = Captured photo, fetch_result = outcome,
      speak_throws = False\<rparr>"

text \<open>A response with a status and a parsed body that is not \<open>null\<close>.\<close>

definition responded :: "nat \<Rightarrow> rat js_predictions \<Rightarrow> rat response" where
  "responded code v = \<lparr>status = code, json_result = JsonResolved (NonNullBody v)\<rparr>"

definition ok_response :: "rat fetch_outcome" where
  "ok_response = FetchResolved (responded 200 (Array [shaped gato]))"

definition html_response :: "rat fetch_outcome" where
  "html_response = FetchResolved \<lparr>status = 502, json_result = JsonRejected\<rparr>"


section \<open>Proofs\<close>

lemma run_events_append [simp]:
  "run_events (xs @ ys) s = run_events ys (run_events xs s)"
  by (simp add: run_events_def)

lemma run_events_Nil [simp]: "run_events [] s = s"
  by (simp add: run_events_def)

lemma run_events_Cons [simp]:
  "run_events (e # es) s = run_events es (apply_event e s)"
  by (simp add: run_events_def)

lemma utterances_append [simp]: "utterances (xs @ ys) = utterances xs @ utterances ys"
  by (induction xs rule: utterances.induct) simp_all

lemma fetches_append [simp]: "fetches (xs @ ys) = fetches xs @ fetches ys"
  by (induction xs rule: fetches.induct) simp_all

lemma alerts_append [simp]: "alerts (xs @ ys) = alerts xs @ alerts ys"
  by (induction xs rule: alerts.induct) simp_all

lemma stores_append [simp]: "stores (xs @ ys) = stores xs @ stores ys"
  by (induction xs rule: stores.induct) simp_all

text \<open>The effects of an upload, path by path.\<close>

lemma sendImageToServer_cases:
  "sendImageToServer percent s u env =
     [SetIsLoading True, Fetch (build_request (serverIP s) u)] @
     (case fetch_result env of
        FetchRejected \<Rightarrow>
          [ConsoleError ''Error al enviar la imagen:'', Alert ''Error al procesar la imagen'']
      | FetchResolved resp \<Rightarrow>
          ResponseJson #
          (case json_result resp of
             JsonRejected \<Rightarrow>
               [ConsoleError ''Error al enviar la imagen:'',
                Alert ''Error al procesar la imagen'']
           | JsonResolved NullBody \<Rightarrow>
               [ConsoleError ''Error al enviar la imagen:'',
                Alert ''Error al procesar la imagen'']
           | JsonResolved (NonNullBody p) \<Rightarrow>
               SetPredictions p #
               (case textToSpeak percent p of
                  Inl e \<Rightarrow>
                    [ConsoleError ''Error al enviar la imagen:'',
                     Alert ''Error al procesar la imagen'']
                | Inr text \<Rightarrow>
                    Speak text speak_options #
                    (if speak_throws env then [ConsoleError ''Error al reproducir audio:'']
                     else [])))) @
     [SetIsLoading False]"
  by (simp add: sendImageToServer_def try_block_def speakPredictions_def Let_def
      split: prod.split fetch_outcome.split json_outcome.split json_body.split sum.split)

text \<open>The loop of \<open>join\<close> against the sentence of the specification.\<close>

lemma join_loop_Suc:
  "join_loop sep (Suc k) R xs = R @ concat (map ((@) sep) xs)"
  by (induction xs arbitrary: k R) simp_all

lemma sentence_Cons:
  "sentence percent (p # ps) =
     piece percent p @ concat (map (\<lambda>q. ''. '' @ piece percent q) ps)"
  by (induction ps arbitrary: p) simp_all

lemma join_pieces: "join (map (piece percent) ps) ''. '' = sentence percent ps"
  by (cases ps) (simp_all add: join_def join_loop_Suc sentence_Cons comp_def)

lemma array_map_total:
  "(\<And>x. x \<in> set xs \<Longrightarrow> f x = Inr (g x)) \<Longrightarrow> array_map f xs = Inr (map g xs)"
  by (induction xs) simp_all

lemma callback_shaped: "callback percent (shaped p) = Inr (piece percent p)"
  by (simp add: shaped_def piece_def)

lemma textToSpeak_shaped:
  "textToSpeak percent (Array (map shaped ps)) = Inr (sentence percent ps)"
proof -
  have "array_map (callback percent) (map shaped ps) = Inr (map (piece percent) ps)"
    by (induction ps) (simp_all add: callback_shaped)
  then show ?thesis
    by (simp add: textToSpeak_def join_pieces)
qed





lemma stores_Nil_predictions:
  "stores evs = [] \<Longrightarrow> predictions (run_events evs s) = predictions s"
  by (induction evs arbitrary: s rule: stores.induct) simp_all

text \<open>The percentages of the examples.\<close>

lemma percent_gato: "js_percent (probability gato) = ''93.21''"
  unfolding gato_def by code_simp

lemma percent_perro: "js_percent (probability perro) = ''5.00''"
  unfolding perro_def by code_simp

lemma percent_loro: "js_percent (probability loro) = ''14.50''"
  unfolding loro_def by code_simp

lemma speak_gato:
  "textToSpeak js_percent (Array [shaped gato]) = Inr ''gato con 93.21% de probabilidad''"
  using textToSpeak_shaped [of js_percent "[gato]"]
  by (simp add: piece_def percent_gato) (simp add: gato_def)

text \<open>The items of a list of well-shaped predictions.\<close>

lemma predictionItems_shaped:
  "predictionItems percent (map shaped ps) =
     Inr (map (\<lambda>(i, p). \<lparr>item_key = i, predictionName = class_name p,
                          predictionProb = percent (probability p) @ ''%''\<rparr>)
            (enumerate 0 ps))"
proof -
  have "array_map (created percent) (enumerate n (map shaped ps)) =
      Inr (map (\<lambda>(i, p). (i, NameString (class_name p), percent (probability p) @ ''%''))
            (enumerate n ps))" for n
    by (induction ps arbitrary: n) (simp_all add: shaped_def)
  moreover have "array_map committed
      (map (\<lambda>(i, p). (i, NameString (class_name p), percent (probability p) @ ''%'')) ips) =
      Inr (map (\<lambda>(i, p). \<lparr>item_key = i, predictionName = class_name p,
                          predictionProb = percent (probability p) @ ''%''\<rparr>) ips)"
    for ips :: "(nat \<times> 'a Prediction) list"
    by (induction ips) auto
  ultimately show ?thesis
    by (simp add: predictionItems_def)
qed

text \<open>
  C3. Every run of the upload ends with \<open>isLoading\<close> false, and the release of the flag
  is its last effect: whether the fetch rejects, the body fails to parse, the property read
  or the speech step throws, or everything succeeds.
\<close>

theorem sendImageToServer_releases_loading:
  "isLoading (run_events (sendImageToServer percent s u env) s) = False \<and>
   last (sendImageToServer percent s u env) = SetIsLoading False"
  by (simp add: sendImageToServer_def split: prod.split)

theorem sendImageToServer_releases_loading_witness:
  "isLoading (run_events (sendImageToServer js_percent shown_state photo
      (capture FetchRejected)) shown_state) = False \<and>
   last (sendImageToServer js_percent shown_state photo (capture html_response)) =
     SetIsLoading False"
  using sendImageToServer_releases_loading [of js_percent shown_state photo "capture FetchRejected"]
    sendImageToServer_releases_loading [of js_percent shown_state photo "capture html_response"]
  by simp

text \<open>
  C4. When the response body carries a non-empty prediction list, \<open>Speech.speak\<close> is
  called exactly once, and its text is the sentence of the specification: for each
  prediction, in list order, "class_name con P% de probabilidad" with P the percentage
  \<open>(probability * 100).toFixed(2)\<close>, the pieces joined with ". ".
\<close>

theorem speech_announces_sentence:
  assumes "fetch_result env = FetchResolved resp"
    and "json_result resp = JsonResolved (NonNullBody (Array (map shaped ps)))"
    and "ps \<noteq> []"
  shows "utterances (sendImageToServer percent s u env) =
           [(sentence percent ps, speak_options)]"
  using assms by (simp add: sendImageToServer_cases textToSpeak_shaped)

text \<open>
  The example of the specification: the single prediction "gato" with probability 0.9321
  is announced as "gato con 93.21% de probabilidad". With three predictions of different
  probabilities (0.9321, 0.05, 0.145) the pieces come in list order with ". " between them.
\<close>

theorem speech_announces_sentence_witness:
  "fetch_result (capture ok_response) = FetchResolved (responded 200 (Array (map shaped [gato]))) \<and>
   [gato] \<noteq> [] \<and>
   utterances (sendImageToServer js_percent fresh_state photo (capture ok_response)) =
     [(''gato con 93.21% de probabilidad'', speak_options)] \<and>
   [gato, perro, loro] \<noteq> [] \<and>
   utterances (sendImageToServer js_percent fresh_state photo
       (capture (FetchResolved (responded 200 (Array (map shaped [gato, perro, loro])))))) =
     [(''gato con 93.21% de probabilidad. perro con 5.00% de probabilidad. loro con 14.50% de probabilidad'',
       speak_options)]"
proof -
  have one: "sentence js_percent [gato] = ''gato con 93.21% de probabilidad''"
    by (simp add: piece_def percent_gato) (simp add: gato_def)
  have three: "sentence js_percent [gato, perro, loro] =
      ''gato con 93.21% de probabilidad. perro con 5.00% de probabilidad. loro con 14.50% de probabilidad''"
    by (simp add: piece_def percent_gato percent_perro percent_loro)
      (simp add: gato_def perro_def loro_def)
  note first = speech_announces_sentence [of "capture ok_response"
      "responded 200 (Array (map shaped [gato]))" "[gato]" js_percent fresh_state photo,
      unfolded one]
  note second = speech_announces_sentence [of
      "capture (FetchResolved (responded 200 (Array (map shaped [gato, perro, loro]))))"
      "responded 200 (Array (map shaped [gato, perro, loro]))" "[gato, perro, loro]"
      js_percent fresh_state photo, unfolded three]
  show ?thesis
    using first second by (simp add: capture_def ok_response_def responded_def)
qed

text \<open>
  C5. When \<open>isLoading\<close> is false and the stored list is non-empty, the render shows one
  entry per prediction, in the order of the list (entry \<open>i\<close> has key \<open>i\<close> and comes
  from prediction \<open>i\<close>), each with the prediction's class name and with its percentage
  \<open>(probability * 100).toFixed(2)\<close> followed by "%".
\<close>

theorem render_lists_predictions:
  assumes "\<not> isLoading s" and "predictions s = Array (map shaped ps)" and "ps \<noteq> []"
  shows "\<exists>v items. render percent s = Inr v \<and> results v = PredictionsCard items \<and>
           length items = length ps \<and>
           (\<forall>i<length ps.
              item_key (items ! i) = i \<and>
              predictionName (items ! i) = class_name (ps ! i) \<and>
              predictionProb (items ! i) = percent (probability (ps ! i)) @ ''%'')"
  using assms by (simp add: render_def predictionItems_shaped nth_enumerate_eq)

theorem render_lists_predictions_witness:
  "\<not> isLoading listed_state \<and> predictions listed_state = Array (map shaped [gato, perro]) \<and>
   [gato, perro] \<noteq> [] \<and>
   (\<exists>v. render js_percent listed_state = Inr v \<and>
        results v = PredictionsCard
          [\<lparr>item_key = 0, predictionName = ''gato'', predictionProb = ''93.21%''\<rparr>,
           \<lparr>item_key = 1, predictionName = ''perro'', predictionProb = ''5.00%''\<rparr>])"
  using render_lists_predictions [of listed_state "[gato, perro]" js_percent]
  by (simp add: listed_state_def fresh_state_def initial_state_def render_def
      predictionItems_def shaped_def enumerate_eq_zip percent_perro percent_gato)
    (simp add: perro_def gato_def)

text \<open>
  C6. Every upload calls \<open>fetch\<close> exactly once: a POST to
  \<open>http://\<close> + serverIP + \<open>:8720/predict/\<close>, with the server address of the state in
  which the handler was started, and a form body of one part named "file" with file name
  "photo.jpg" and content type "image/jpeg", sent as multipart/form-data.
\<close>

theorem upload_request:
  "fetches (sendImageToServer percent s u env) =
     [\<lparr>req_url = ''http://'' @ serverIP s @ '':8720/predict/'',
       req_method = ''POST'',
       req_body = [(''file'', \<lparr>part_uri = u, part_type = ''image/jpeg'',
                               part_name = ''photo.jpg''\<rparr>)],
       req_headers = [(''Content-Type'', ''multipart/form-data'')]\<rparr>]"
  by (simp add: sendImageToServer_cases build_request_def
      split: fetch_outcome.split json_outcome.split json_body.split sum.split)

theorem upload_request_witness:
  "fetches (takePhoto js_percent fresh_state (capture ok_response)) =
     [\<lparr>req_url = ''http://192.168.1.5:8720/predict/'',
       req_method = ''POST'',
       req_body = [(''file'', \<lparr>part_uri = ''file:///photo.jpg'', part_type = ''image/jpeg'',
                               part_name = ''photo.jpg''\<rparr>)],
       req_headers = [(''Content-Type'', ''multipart/form-data'')]\<rparr>]"
  using upload_request [of js_percent fresh_state photo "capture ok_response"]
  by (simp add: takePhoto_def capture_def fresh_state_def photo_def)

text \<open>
  C8. When the permission is granted and the camera is cancelled, the handler does nothing
  after launching the camera: no setter is called, so every field of the session state
  keeps its value, no request is sent and no alert or console error is produced.
\<close>

theorem cancelled_capture_changes_nothing:
  assumes "permission env = Granted" and "camera env = Canceled"
  shows "takePhoto percent s env = [RequestCameraPermissions, LaunchCamera] \<and>
         run_events (takePhoto percent s env) s = s \<and>
         fetches (takePhoto percent s env) = [] \<and>
         alerts (takePhoto percent s env) = []"
  using assms by (simp add: takePhoto_def)

theorem cancelled_capture_changes_nothing_witness:
  "permission ((capture ok_response)\<lparr>camera := Canceled\<rparr>) = Granted \<and>
   camera ((capture ok_response)\<lparr>camera := Canceled\<rparr>) = Canceled \<and>
   run_events (takePhoto js_percent shown_state ((capture ok_response)\<lparr>camera := Canceled\<rparr>))
     shown_state = shown_state \<and>
   fetches (takePhoto js_percent shown_state ((capture ok_response)\<lparr>camera := Canceled\<rparr>)) = []"
  using cancelled_capture_changes_nothing [of "(capture ok_response)\<lparr>camera := Canceled\<rparr>"
      js_percent shown_state]
  by (simp add: capture_def)

text \<open>
  C9. When the permission is not granted, the handler shows the alert and returns: the
  camera is not launched, no request is sent and the session state is not modified.
\<close>

theorem denied_permission_alerts_only:
  assumes "permission env \<noteq> Granted"
  shows "takePhoto percent s env = [RequestCameraPermissions, Alert permission_message] \<and>
         alerts (takePhoto percent s env) = [permission_message] \<and>
         fetches (takePhoto percent s env) = [] \<and>
         run_events (takePhoto percent s env) s = s"
  using assms by (simp add: takePhoto_def)

theorem denied_permission_alerts_only_witness:
  "permission ((capture ok_response)\<lparr>permission := Denied\<rparr>) \<noteq> Granted \<and>
   alerts (takePhoto js_percent shown_state ((capture ok_response)\<lparr>permission := Denied\<rparr>)) =
     [permission_message] \<and>
   fetches (takePhoto js_percent shown_state ((capture ok_response)\<lparr>permission := Denied\<rparr>)) = [] \<and>
   run_events (takePhoto js_percent shown_state ((capture ok_response)\<lparr>permission := Denied\<rparr>))
     shown_state = shown_state"
  using denied_permission_alerts_only [of "(capture ok_response)\<lparr>permission := Denied\<rparr>"
      js_percent shown_state]
  by (simp add: capture_def)

text \<open>
  C2 fails as stated. In a successful flow the handler awaits the speech step (effect
  number 7, after the response has been received, parsed and stored) with the request
  completed and \<open>isLoading\<close> still true.
\<close>

theorem loading_during_speech_step:
  "fst (snapshots (takePhoto js_percent fresh_state (capture ok_response)) fresh_state ! 7) =
     Speak ''gato con 93.21% de probabilidad'' speak_options \<and>
   awaited (fst (snapshots (takePhoto js_percent fresh_state (capture ok_response))
     fresh_state ! 7)) \<and>
   \<not> request_in_flight (fst (snapshots (takePhoto js_percent fresh_state (capture ok_response))
     fresh_state ! 7)) \<and>
   isLoading (snd (snapshots (takePhoto js_percent fresh_state (capture ok_response))
     fresh_state ! 7))"
  by (simp add: takePhoto_def sendImageToServer_cases capture_def ok_response_def
      responded_def speak_gato)

text \<open>
  C2, amended. In one capture-upload-display flow started with \<open>isLoading\<close> false,
  at every point where the handler is suspended \<open>isLoading\<close> is true exactly when the
  awaited call belongs to the upload operation: \<open>fetch\<close> or the reading of the body
  (the request is in flight), or the speech step that follows a stored response. It is
  false while the permission request and the camera are awaited, and false once the flow
  has ended: the flag is released when the whole upload operation ends, not at the moment
  the request completes.
\<close>

theorem loading_at_suspension_points:
  assumes "\<not> isLoading s"
  shows "(\<forall>(e, s') \<in> set (snapshots (takePhoto percent s env) s).
            awaited e \<longrightarrow> isLoading s' = (request_in_flight e \<or> speech_step e)) \<and>
         \<not> isLoading (run_events (takePhoto percent s env) s)"
  using assms
  by (simp add: takePhoto_def sendImageToServer_cases
      split: camera_result.split fetch_outcome.split json_outcome.split json_body.split
        sum.split)

theorem loading_at_suspension_points_witness:
  "\<not> isLoading fresh_state \<and>
   isLoading (snd (snapshots (takePhoto js_percent fresh_state (capture ok_response))
     fresh_state ! 4)) \<and>
   \<not> isLoading (snd (snapshots (takePhoto js_percent fresh_state (capture ok_response))
     fresh_state ! 1)) \<and>
   \<not> isLoading (run_events (takePhoto js_percent fresh_state (capture ok_response))
     fresh_state)"
  using loading_at_suspension_points [of fresh_state js_percent "capture ok_response"]
  by (simp add: takePhoto_def sendImageToServer_cases capture_def ok_response_def
      responded_def fresh_state_def initial_state_def speak_gato)

text \<open>
  C1 fails as stated. The code never reads the status of the response, so a response that
  is not 2xx is not a failed attempt for it: a response with status 500 whose body carries
  a prediction list is handled as a success. No alert is shown, and the list replaces the
  prediction that was stored before.
\<close>

theorem non_ok_response_handled_as_success:
  "\<not> response_ok (responded 500 (Array [shaped gato])) \<and>
   alerts (sendImageToServer js_percent shown_state photo
     (capture (FetchResolved (responded 500 (Array [shaped gato]))))) = [] \<and>
   predictions (run_events (sendImageToServer js_percent shown_state photo
     (capture (FetchResolved (responded 500 (Array [shaped gato]))))) shown_state) =
     Array [shaped gato] \<and>
   predictions (run_events (sendImageToServer js_percent shown_state photo
     (capture (FetchResolved (responded 500 (Array [shaped gato]))))) shown_state) \<noteq>
     predictions shown_state"
proof -
  have effects: "sendImageToServer js_percent shown_state photo
      (capture (FetchResolved (responded 500 (Array [shaped gato])))) =
      [SetIsLoading True, Fetch (build_request (serverIP shown_state) photo), ResponseJson,
       SetPredictions (Array [shaped gato]),
       Speak ''gato con 93.21% de probabilidad'' speak_options, SetIsLoading False]"
    by (simp add: sendImageToServer_cases capture_def responded_def speak_gato)
  have differ: "shaped gato \<noteq> shaped perro"
    by (simp add: shaped_def gato_def perro_def)
  show ?thesis
    unfolding effects
    by (simp add: response_ok_def responded_def shown_state_def differ)
qed

text \<open>
  C1, amended. When the fetch rejects or the body fails to parse as JSON (whatever the
  status code), the loading flag is cleared, the generic alert is shown once and the
  stored predictions are those stored before the attempt. A status that is not 2xx is by
  itself no failure: the effects of the upload do not depend on the status, and a response
  of any status whose body carries a prediction list is handled as a success (the list is
  stored and announced, no alert is shown, the loading flag is cleared).
\<close>

theorem failed_upload_keeps_predictions:
  "(fetch_result env = FetchRejected \<or>
    fetch_result env = FetchResolved resp \<and> json_result resp = JsonRejected \<longrightarrow>
      isLoading (run_events (sendImageToServer percent s u env) s) = False \<and>
      alerts (sendImageToServer percent s u env) = [''Error al procesar la imagen''] \<and>
      predictions (run_events (sendImageToServer percent s u env) s) = predictions s) \<and>
   (fetch_result env = FetchResolved resp \<and>
    json_result resp = JsonResolved (NonNullBody (Array (map shaped ps))) \<longrightarrow>
      isLoading (run_events (sendImageToServer percent s u env) s) = False \<and>
      alerts (sendImageToServer percent s u env) = [] \<and>
      utterances (sendImageToServer percent s u env) =
        [(sentence percent ps, speak_options)] \<and>
      predictions (run_events (sendImageToServer percent s u env) s) =
        Array (map shaped ps)) \<and>
   sendImageToServer percent s u (env\<lparr>fetch_result := FetchResolved (resp\<lparr>status := code\<rparr>)\<rparr>) =
     sendImageToServer percent s u (env\<lparr>fetch_result := FetchResolved resp\<rparr>)"
  by (auto simp add: sendImageToServer_cases textToSpeak_shaped)

theorem failed_upload_keeps_predictions_witness:
  "fetch_result (capture html_response) =
     FetchResolved \<lparr>status = 502, json_result = JsonRejected\<rparr> \<and>
   isLoading (run_events
     (sendImageToServer js_percent shown_state photo (capture html_response)) shown_state) =
     False \<and>
   alerts (sendImageToServer js_percent shown_state photo (capture html_response)) =
     [''Error al procesar la imagen''] \<and>
   predictions (run_events
     (sendImageToServer js_percent shown_state photo (capture html_response)) shown_state) =
     Array [shaped perro] \<and>
   alerts (sendImageToServer js_percent shown_state photo (capture FetchRejected)) =
     [''Error al procesar la imagen''] \<and>
   predictions (run_events
     (sendImageToServer js_percent shown_state photo (capture FetchRejected)) shown_state) =
     Array [shaped perro] \<and>
   alerts (sendImageToServer js_percent shown_state photo
     (capture (FetchResolved (responded 404 (Array (map shaped [gato, loro])))))) = [] \<and>
   predictions (run_events (sendImageToServer js_percent shown_state photo
     (capture (FetchResolved (responded 404 (Array (map shaped [gato, loro])))))) shown_state) =
     Array [shaped gato, shaped loro]"
  using failed_upload_keeps_predictions [of "capture html_response"
      "\<lparr>status = 502, json_result = JsonRejected\<rparr>" js_percent shown_state photo "[]" 502]
    failed_upload_keeps_predictions [of "capture FetchRejected"
      "\<lparr>status = 502, json_result = JsonRejected\<rparr>" js_percent shown_state photo "[]" 502]
    failed_upload_keeps_predictions [of
      "capture (FetchResolved (responded 404 (Array (map shaped [gato, loro]))))"
      "responded 404 (Array (map shaped [gato, loro]))" js_percent shown_state photo
      "[gato, loro]" 404]
  by (simp add: capture_def html_response_def shown_state_def responded_def)

text \<open>
  C7 fails as stated. The code never reads the status of the response: after a capture, a
  response with status 503, which is not a successful one, replaces the prediction stored
  before the capture by the list its body carries.
\<close>

theorem non_ok_response_replaces_predictions:
  "\<not> response_ok (responded 503 (Array [shaped gato])) \<and>
   predictions (run_events (takePhoto js_percent shown_state
     (capture (FetchResolved (responded 503 (Array [shaped gato]))))) shown_state) =
     Array [shaped gato] \<and>
   predictions (run_events (takePhoto js_percent shown_state
     (capture (FetchResolved (responded 503 (Array [shaped gato]))))) shown_state) \<noteq>
     predictions shown_state"
proof -
  have effects: "takePhoto js_percent shown_state
      (capture (FetchResolved (responded 503 (Array [shaped gato])))) =
      [RequestCameraPermissions, LaunchCamera, SetImageUri photo, SetIsLoading True,
       Fetch (build_request (serverIP shown_state) photo), ResponseJson,
       SetPredictions (Array [shaped gato]),
       Speak ''gato con 93.21% de probabilidad'' speak_options, SetIsLoading False]"
    by (simp add: takePhoto_def sendImageToServer_cases capture_def responded_def speak_gato)
  have differ: "shaped gato \<noteq> shaped perro"
    by (simp add: shaped_def gato_def perro_def)
  show ?thesis
    unfolding effects
    by (simp add: response_ok_def responded_def shown_state_def differ)
qed

text \<open>
  C7, amended. After a successful (non-cancelled) capture the transition into the loading
  state (the first four effects, ending with \<open>setIsLoading(true)\<close>) does not modify the
  stored predictions, and they stay unchanged while the request is in flight, until the
  body of the response has been read (the first six effects). They stay unchanged to the
  end when the fetch rejects or the body fails to parse as JSON; a response whose body
  carries a prediction list replaces them wholesale by that list, whatever its status.
\<close>

theorem capture_keeps_predictions_until_response:
  assumes "permission env = Granted" and "camera env = Captured u"
  shows "take 4 (takePhoto percent s env) =
           [RequestCameraPermissions, LaunchCamera, SetImageUri u, SetIsLoading True] \<and>
         isLoading (run_events (take 4 (takePhoto percent s env)) s) \<and>
         predictions (run_events (take 4 (takePhoto percent s env)) s) = predictions s \<and>
         (\<forall>k\<le>6. predictions (run_events (take k (takePhoto percent s env)) s) =
                  predictions s) \<and>
         (fetch_result env = FetchRejected \<or>
          (\<exists>resp. fetch_result env = FetchResolved resp \<and> json_result resp = JsonRejected) \<longrightarrow>
            predictions (run_events (takePhoto percent s env) s) = predictions s) \<and>
         (\<forall>resp ps. fetch_result env = FetchResolved resp \<and>
              json_result resp = JsonResolved (NonNullBody (Array (map shaped ps))) \<longrightarrow>
            predictions (run_events (takePhoto percent s env) s) = Array (map shaped ps))"
proof -
  have shape: "takePhoto percent s env =
      [RequestCameraPermissions, LaunchCamera, SetImageUri u] @
      sendImageToServer percent s u env"
    using assms by (simp add: takePhoto_def)
  have start: "take 4 (takePhoto percent s env) =
      [RequestCameraPermissions, LaunchCamera, SetImageUri u, SetIsLoading True]"
    by (simp add: shape sendImageToServer_cases)
  have six: "stores (take 6 (takePhoto percent s env)) = []"
    by (simp add: shape sendImageToServer_cases
        split: fetch_outcome.split json_outcome.split json_body.split sum.split)
  have kept: "predictions (run_events (take k (takePhoto percent s env)) s) = predictions s"
    if "k \<le> 6" for k
  proof -
    have "take 6 (takePhoto percent s env) =
        take k (takePhoto percent s env) @ drop k (take 6 (takePhoto percent s env))"
      using that by (metis append_take_drop_id min.absorb1 take_take)
    with six have "stores (take k (takePhoto percent s env)) = []"
      by (metis append_is_Nil_conv stores_append)
    then show ?thesis
      by (rule stores_Nil_predictions)
  qed
  have failed: "fetch_result env = FetchRejected \<or>
      (\<exists>resp. fetch_result env = FetchResolved resp \<and> json_result resp = JsonRejected) \<longrightarrow>
      predictions (run_events (takePhoto percent s env) s) = predictions s"
    by (auto simp add: shape sendImageToServer_cases)
  have stored: "\<forall>resp ps. fetch_result env = FetchResolved resp \<and>
      json_result resp = JsonResolved (NonNullBody (Array (map shaped ps))) \<longrightarrow>
      predictions (run_events (takePhoto percent s env) s) = Array (map shaped ps)"
    by (auto simp add: shape sendImageToServer_cases textToSpeak_shaped)
  show ?thesis
    using kept failed stored by (simp add: start)
qed

theorem capture_keeps_predictions_until_response_witness:
  "permission (capture ok_response) = Granted \<and>
   camera (capture ok_response) = Captured photo \<and>
   predictions (run_events (take 6 (takePhoto js_percent shown_state (capture ok_response)))
     shown_state) = Array [shaped perro] \<and>
   predictions (run_events (takePhoto js_percent shown_state (capture ok_response))
     shown_state) = Array [shaped gato]"
proof -
  have "permission (capture ok_response) = Granted"
    and "camera (capture ok_response) = Captured photo"
    by (simp_all add: capture_def)
  note all = capture_keeps_predictions_until_response [OF this, of js_percent shown_state]
  from all have kept: "\<forall>k\<le>6. predictions (run_events (take k (takePhoto js_percent shown_state
      (capture ok_response))) shown_state) = predictions shown_state"
    by blast
  from all have stored: "\<forall>resp ps. fetch_result (capture ok_response) = FetchResolved resp \<and>
      json_result resp = JsonResolved (NonNullBody (Array (map shaped ps))) \<longrightarrow>
      predictions (run_events (takePhoto js_percent shown_state (capture ok_response))
        shown_state) = Array (map shaped ps)"
    by blast
  from kept [rule_format, of 6]
    stored [rule_format, of "responded 200 (Array [shaped gato])" "[gato]"]
  show ?thesis
    by (simp add: capture_def ok_response_def responded_def shown_state_def)
qed




end
